theory Spec2Isabelle
  imports Complex_Main "HOL-Library.Signed_Division"
begin

section \<open>Numbers, runes and time\<close>

text \<open>
  The program computes with Go's \<open>float64\<close>, \<open>int\<close>, \<open>rune\<close> and \<open>time.Time\<close>.
  \<^item> A finite \<open>float64\<close> is modelled by the real number it stands for; rounding is not
    modelled. The body data come from JSON, which has no NaN and no infinity, so every
    field of a body is a finite number.
  \<^item> Where a division can have a zero divisor the result is a \<open>float64\<close> value below, with
    the special values of IEEE 754 written out.
  \<^item> A \<open>rune\<close> is modelled by its code point.
  \<^item> Screen coordinates are of Go's type \<open>int\<close> (64 bits); they are modelled by \<open>int\<close>,
    the viewport being far from the 64-bit range.
  \<^item> A \<open>time.Time\<close> is modelled by its number of nanoseconds since the Unix epoch.
\<close>

type_synonym rune = nat

datatype float64 = Finite real | PosInf | NegInf | NaN

text \<open>Division of two finite numbers, as IEEE 754 defines it for a zero divisor.\<close>

definition fdiv :: "real \<Rightarrow> real \<Rightarrow> float64" where
  "fdiv x y =
     (if y \<noteq> 0 then Finite (x / y)
      else if x = 0 then NaN
      else if 0 < x then PosInf else NegInf)"

text \<open>Product of a \<open>float64\<close> and a finite number.\<close>

fun fmul :: "float64 \<Rightarrow> real \<Rightarrow> float64" where
  "fmul (Finite a) b = Finite (a * b)"
| "fmul PosInf b = (if 0 < b then PosInf else if b < 0 then NegInf else NaN)"
| "fmul NegInf b = (if 0 < b then NegInf else if b < 0 then PosInf else NaN)"
| "fmul NaN b = NaN"

text \<open>Sum of a finite number and a \<open>float64\<close>.\<close>

fun fadd :: "real \<Rightarrow> float64 \<Rightarrow> float64" where
  "fadd a (Finite b) = Finite (a + b)"
| "fadd a PosInf = PosInf"
| "fadd a NegInf = NegInf"
| "fadd a NaN = NaN"

fun is_finite :: "float64 \<Rightarrow> bool" where
  "is_finite (Finite a) = True"
| "is_finite PosInf = False"
| "is_finite NegInf = False"
| "is_finite NaN = False"

text \<open>Go's conversion \<open>int(f)\<close> of a finite \<open>float64\<close>: the fraction is dropped.\<close>

definition go_int :: "real \<Rightarrow> int" where
  "go_int x = (if 0 \<le> x then \<lfloor>x\<rfloor> else \<lceil>x\<rceil>)"

text \<open>
  \<open>math.Mod(x, y)\<close> for finite \<open>x\<close> and \<open>y \<noteq> 0\<close>: the remainder of the division
  truncated towards zero. It has the sign of \<open>x\<close>.
\<close>

definition math_Mod :: "real \<Rightarrow> real \<Rightarrow> real" where
  "math_Mod x y = x - y * of_int (go_int (x / y))"

type_synonym time = int

text \<open>\<open>t.Sub(u)\<close>: the difference as a \<open>Duration\<close>, an \<open>int64\<close> of nanoseconds, saturated.\<close>

definition time_Sub :: "time \<Rightarrow> time \<Rightarrow> int" where
  "time_Sub t u = max (- (2 ^ 63)) (min (2 ^ 63 - 1) (t - u))"

definition Hours :: "int \<Rightarrow> real" where
  "Hours d = of_int d / 3600000000000"

definition Seconds :: "int \<Rightarrow> real" where
  "Seconds d = of_int d / 1000000000"

text \<open>\<open>time.Date(2000, 1, 1, 12, 0, 0, 0, time.UTC)\<close>: 946728000 seconds after the Unix epoch.\<close>

definition j2000 :: time where
  "j2000 = 946728000 * 1000000000"

section \<open>The body model (package models)\<close>

record Mass =
  MassValue :: real
  MassExponent :: int

record OrbitalElement =
  MeanAnomaly :: real
  Epoch :: time

text \<open>
  \<open>CelestialBody\<close> with the fields the visualization and the orbital calculators read.
  \<open>OrbitalElements\<close> is a pointer in the source: \<open>None\<close> is \<open>nil\<close>.
\<close>

record CelestialBody =
  EnglishName :: string
  IsPlanet :: bool
  SemimajorAxis :: real
  Eccentricity :: real
  BodyMass :: Mass
  MeanRadius :: real
  SideralOrbit :: real
  BodyType :: string
  Temperature :: real
  StellarClass :: string
  OrbitalElements :: "OrbitalElement option"

text \<open>The zero value of \<open>CelestialBody\<close>.\<close>

definition zero_body :: CelestialBody where
  "zero_body =
     \<lparr>EnglishName = [], IsPlanet = False, SemimajorAxis = 0, Eccentricity = 0,
      BodyMass = \<lparr>MassValue = 0, MassExponent = 0\<rparr>, MeanRadius = 0, SideralOrbit = 0,
      BodyType = [], Temperature = 0, StellarClass = [], OrbitalElements = None\<rparr>"

section \<open>DistanceScaler\<close>

record DistanceScaler =
  ds_width :: int
  ds_height :: int

text \<open>
  The loop of \<open>findDistanceRange\<close>: the state is \<open>(minDistance, maxDistance, first)\<close>.
\<close>

fun range_step :: "real \<times> real \<times> bool \<Rightarrow> CelestialBody \<Rightarrow> real \<times> real \<times> bool" where
  "range_step (minDistance, maxDistance, first) planet =
     (if EnglishName planet = ''Sun'' \<or> SemimajorAxis planet \<le> 0
      then (minDistance, maxDistance, first)
      else if first then (SemimajorAxis planet, SemimajorAxis planet, False)
      else ((if SemimajorAxis planet < minDistance then SemimajorAxis planet else minDistance),
            (if SemimajorAxis planet > maxDistance then SemimajorAxis planet else maxDistance),
            False))"

definition findDistanceRange :: "CelestialBody list \<Rightarrow> real \<times> real" where
  "findDistanceRange planets =
     (if length planets = 0 then (1, 100)
      else case foldl range_step (0, 0, True) planets of
             (minDistance, maxDistance, first) \<Rightarrow>
               if first then (1, 100) else (minDistance, maxDistance))"

definition maxRadius :: "DistanceScaler \<Rightarrow> real" where
  "maxRadius ds =
     min (of_int (ds_width ds sdiv 2 - 3)) (of_int (ds_height ds sdiv 2 - 3)) * 0.95"

definition ScaleDistance :: "DistanceScaler \<Rightarrow> real \<Rightarrow> CelestialBody list \<Rightarrow> float64" where
  "ScaleDistance ds distance planets =
     (if distance \<le> 0 then Finite 0
      else case findDistanceRange planets of
        (minDistance, maxDistance) \<Rightarrow>
          let logMin = ln minDistance;
              logMax = ln maxDistance;
              logCurrent = ln distance;
              normalized = fdiv (logCurrent - logMin) (logMax - logMin);
              minRadius = 8
          in fadd minRadius (fmul normalized (maxRadius ds - minRadius)))"

section \<open>Orbital calculators (package orbital)\<close>

text \<open>The table \<open>j2000MeanAnomalies\<close>: mean anomalies at J2000.0, in radians.\<close>

definition j2000MeanAnomalies :: "string \<Rightarrow> real option" where
  "j2000MeanAnomalies =
     map_of
       [(''Mercury'', 174.7948 * pi / 180),
        (''Venus'', 50.4161 * pi / 180),
        (''Earth'', 357.5291 * pi / 180),
        (''Mars'', 19.3730 * pi / 180),
        (''Jupiter'', 20.0202 * pi / 180),
        (''Saturn'', 317.0207 * pi / 180),
        (''Uranus'', 141.0498 * pi / 180),
        (''Neptune'', 256.2250 * pi / 180),
        (''Pluto'', 14.8820 * pi / 180)]"

text \<open>The seed-derived starting angle of the generic strategy.\<close>

definition initialAngle :: "CelestialBody \<Rightarrow> real" where
  "initialAngle body =
     (let seed = SemimajorAxis body + SideralOrbit body + MeanRadius body
      in math_Mod (seed * 0.01745329) (2 * pi))"

text \<open>\<open>GenericCalculator.CalculateMeanAnomaly\<close>; the first argument is the receiver's \<open>epochTime\<close>.\<close>

definition Generic_CalculateMeanAnomaly :: "time \<Rightarrow> CelestialBody \<Rightarrow> time \<Rightarrow> real" where
  "Generic_CalculateMeanAnomaly epochTime body currentTime =
     (let daysSinceEpoch = Hours (time_Sub currentTime epochTime) / 24
      in if SideralOrbit body \<le> 0 then initialAngle body
         else let meanMotionPerDay = 2 * pi / SideralOrbit body;
                  currentMeanAnomaly = initialAngle body + meanMotionPerDay * daysSinceEpoch
              in math_Mod currentMeanAnomaly (2 * pi))"

text \<open>\<open>SolarSystemCalculator.CalculateMeanAnomaly\<close>.\<close>

definition Solar_CalculateMeanAnomaly :: "time \<Rightarrow> CelestialBody \<Rightarrow> time \<Rightarrow> real" where
  "Solar_CalculateMeanAnomaly epochTime body currentTime =
     (case j2000MeanAnomalies (EnglishName body) of
        None \<Rightarrow> Generic_CalculateMeanAnomaly epochTime body currentTime
      | Some j2000MeanAnomaly \<Rightarrow>
          let daysSinceJ2000 = Hours (time_Sub currentTime j2000) / 24
          in if SideralOrbit body \<le> 0 then j2000MeanAnomaly
             else let meanMotionPerDay = 2 * pi / SideralOrbit body;
                      currentMeanAnomaly = j2000MeanAnomaly + meanMotionPerDay * daysSinceJ2000
                  in math_Mod currentMeanAnomaly (2 * pi))"

text \<open>\<open>ExactCalculator.CalculateMeanAnomaly\<close>.\<close>

definition Exact_CalculateMeanAnomaly :: "CelestialBody \<Rightarrow> time \<Rightarrow> real" where
  "Exact_CalculateMeanAnomaly body currentTime =
     (case OrbitalElements body of
        None \<Rightarrow> 0
      | Some elements \<Rightarrow>
          let daysSinceEpoch = Hours (time_Sub currentTime (Epoch elements)) / 24
          in if SideralOrbit body \<le> 0
             then math_Mod (MeanAnomaly elements * pi / 180) (2 * pi)
             else let meanMotionPerDay = 2 * pi / SideralOrbit body;
                      epochMeanAnomaly = MeanAnomaly elements * pi / 180;
                      currentMeanAnomaly = epochMeanAnomaly + meanMotionPerDay * daysSinceEpoch
                  in math_Mod currentMeanAnomaly (2 * pi))"

text \<open>The three implementations of the interface \<open>Calculator\<close>, and the factory.\<close>

datatype Calculator = SolarSystemCalculator time | GenericCalculator time | ExactCalculator

fun CalculateMeanAnomaly :: "Calculator \<Rightarrow> CelestialBody \<Rightarrow> time \<Rightarrow> real" where
  "CalculateMeanAnomaly (SolarSystemCalculator epochTime) body currentTime =
     Solar_CalculateMeanAnomaly epochTime body currentTime"
| "CalculateMeanAnomaly (GenericCalculator epochTime) body currentTime =
     Generic_CalculateMeanAnomaly epochTime body currentTime"
| "CalculateMeanAnomaly ExactCalculator body currentTime =
     Exact_CalculateMeanAnomaly body currentTime"

definition isSolarSystemBody :: "CelestialBody \<Rightarrow> bool" where
  "isSolarSystemBody body =
     (EnglishName body \<in> set [''Mercury'', ''Venus'', ''Earth'', ''Mars'', ''Jupiter'',
        ''Saturn'', ''Uranus'', ''Neptune'', ''Pluto''])"

definition CreateCalculator :: "CelestialBody \<Rightarrow> time \<Rightarrow> Calculator" where
  "CreateCalculator body epochTime =
     (if isSolarSystemBody body then SolarSystemCalculator epochTime
      else if OrbitalElements body \<noteq> None then ExactCalculator
      else GenericCalculator epochTime)"

section \<open>CelestialObjectRenderer: orbital angle\<close>

text \<open>
  The renderer with its circle drawer's \<open>aspectRatio\<close> inlined. The wall clock
  (\<open>time.Now()\<close>, \<open>time.Since\<close>) is the argument \<open>now\<close> of the functions that read it.
\<close>

record CelestialObjectRenderer =
  aspectRatio :: real
  startTime :: time
  epochTime :: time
  cor_width :: int
  cor_height :: int

definition isOurSolarSystem :: "CelestialBody \<Rightarrow> bool" where
  "isOurSolarSystem planet =
     (EnglishName planet \<in> set [''Mercury'', ''Venus'', ''Earth'', ''Mars'', ''Jupiter'',
        ''Saturn'', ''Uranus'', ''Neptune'', ''Pluto''])"

definition calculateGenericMeanAnomaly ::
  "CelestialObjectRenderer \<Rightarrow> time \<Rightarrow> CelestialBody \<Rightarrow> real" where
  "calculateGenericMeanAnomaly cor now planet =
     (let daysSinceEpoch = Hours (time_Sub now (epochTime cor)) / 24
      in if SideralOrbit planet \<le> 0 then initialAngle planet
         else let meanMotionPerDay = 2 * pi / SideralOrbit planet;
                  currentMeanAnomaly = initialAngle planet + meanMotionPerDay * daysSinceEpoch
              in math_Mod currentMeanAnomaly (2 * pi))"

definition calculateSolarSystemMeanAnomaly ::
  "CelestialObjectRenderer \<Rightarrow> time \<Rightarrow> CelestialBody \<Rightarrow> real" where
  "calculateSolarSystemMeanAnomaly cor now planet =
     (case j2000MeanAnomalies (EnglishName planet) of
        None \<Rightarrow> calculateGenericMeanAnomaly cor now planet
      | Some j2000MeanAnomaly \<Rightarrow>
          let daysSinceJ2000 = Hours (time_Sub now j2000) / 24
          in if SideralOrbit planet \<le> 0 then j2000MeanAnomaly
             else let meanMotionPerDay = 2 * pi / SideralOrbit planet;
                      currentMeanAnomaly = j2000MeanAnomaly + meanMotionPerDay * daysSinceJ2000
                  in math_Mod currentMeanAnomaly (2 * pi))"

definition calculateCurrentMeanAnomaly ::
  "CelestialObjectRenderer \<Rightarrow> time \<Rightarrow> CelestialBody \<Rightarrow> real" where
  "calculateCurrentMeanAnomaly cor now planet =
     (if isOurSolarSystem planet then calculateSolarSystemMeanAnomaly cor now planet
      else let daysSinceEpoch = Hours (time_Sub now (epochTime cor)) / 24
           in if SideralOrbit planet \<le> 0 then initialAngle planet
              else let meanMotionPerDay = 2 * pi / SideralOrbit planet;
                       currentMeanAnomaly = initialAngle planet + meanMotionPerDay * daysSinceEpoch
                   in math_Mod currentMeanAnomaly (2 * pi))"

text \<open>
  \<open>calculateMeanAnomaly\<close> is called for a positive \<open>SideralOrbit\<close> only (see
  \<open>getOrbitalAngle\<close>), so its division has a divisor other than zero.
\<close>

definition calculateMeanAnomaly ::
  "CelestialObjectRenderer \<Rightarrow> time \<Rightarrow> CelestialBody \<Rightarrow> real" where
  "calculateMeanAnomaly cor now planet =
     (let currentMeanAnomaly = calculateCurrentMeanAnomaly cor now planet;
          elapsed = Seconds (time_Sub now (startTime cor));
          orbitalPeriodSeconds = SideralOrbit planet * 24 * 3600;
          meanMotion = 2 * pi / orbitalPeriodSeconds;
          animationSpeedFactor = 864000
      in currentMeanAnomaly + meanMotion * elapsed * animationSpeedFactor)"

definition getOrbitalAngle :: "CelestialObjectRenderer \<Rightarrow> time \<Rightarrow> CelestialBody \<Rightarrow> real" where
  "getOrbitalAngle cor now planet =
     (if SideralOrbit planet \<le> 0 then 0
      else let meanAnomaly = calculateMeanAnomaly cor now planet
           in if Eccentricity planet > 0
              then let trueAnomaly = meanAnomaly + 2 * Eccentricity planet * sin meanAnomaly
                   in math_Mod trueAnomaly (2 * pi)
              else math_Mod meanAnomaly (2 * pi))"

section \<open>The grid and CircleDrawer\<close>

text \<open>
  A grid is Go's \<open>[][]rune\<close>: a list of rows. Indexing a slice out of range panics, so
  every read and write of a cell checks its indices and the functions return a fault or the
  new grid. \<open>NonFiniteToInt\<close> is not a panic: Go leaves the conversion of NaN and of an
  infinity to \<open>int\<close> to the implementation, and the model stops there. \<open>NoReturn\<close> stands for
  a loop that does not end.
\<close>

type_synonym grid = "rune list list"

datatype fault = IndexOutOfRange | MakeSliceLen | NonFiniteToInt | NoReturn

definition blank :: rune where
  "blank = 32"

definition isInBounds :: "int \<Rightarrow> int \<Rightarrow> int \<Rightarrow> int \<Rightarrow> bool" where
  "isInBounds x y width height = (x \<ge> 0 \<and> x < width \<and> y \<ge> 0 \<and> y < height)"

text \<open>\<open>grid[y][x]\<close> as a read and as an assignment.\<close>

definition get_cell :: "grid \<Rightarrow> int \<Rightarrow> int \<Rightarrow> fault + rune" where
  "get_cell g x y =
     (if 0 \<le> y \<and> y < int (length g)
      then (if 0 \<le> x \<and> x < int (length (g ! nat y))
            then Inr (g ! nat y ! nat x) else Inl IndexOutOfRange)
      else Inl IndexOutOfRange)"

definition set_cell :: "grid \<Rightarrow> int \<Rightarrow> int \<Rightarrow> rune \<Rightarrow> fault + grid" where
  "set_cell g x y symbol =
     (if 0 \<le> y \<and> y < int (length g)
      then (if 0 \<le> x \<and> x < int (length (g ! nat y))
            then Inr (g[nat y := (g ! nat y)[nat x := symbol]]) else Inl IndexOutOfRange)
      else Inl IndexOutOfRange)"

text \<open>
  The guarded write of \<open>DrawCircle\<close> and \<open>renderDebrisBelt\<close>:
  \<open>if isInBounds(x, y, len(grid[0]), len(grid)) && grid[y][x] == ' ' { grid[y][x] = symbol }\<close>.
  \<open>grid[0]\<close> panics on a grid with no row.
\<close>

definition plot_blank :: "grid \<Rightarrow> int \<Rightarrow> int \<Rightarrow> rune \<Rightarrow> fault + grid" where
  "plot_blank g x y symbol =
     (case g of
        [] \<Rightarrow> Inl IndexOutOfRange
      | row0 # _ \<Rightarrow>
          if isInBounds x y (int (length row0)) (int (length g))
          then (case get_cell g x y of
                  Inl e \<Rightarrow> Inl e
                | Inr c \<Rightarrow> if c = blank then set_cell g x y symbol else Inr g)
          else Inr g)"

text \<open>
  The guarded write of \<open>DrawFilledCircle\<close>, \<open>RenderStars\<close> and \<open>RenderPlanet\<close>:
  \<open>if isInBounds(x, y, len(grid[0]), len(grid)) { grid[y][x] = symbol }\<close>.
\<close>

definition plot :: "grid \<Rightarrow> int \<Rightarrow> int \<Rightarrow> rune \<Rightarrow> fault + grid" where
  "plot g x y symbol =
     (case g of
        [] \<Rightarrow> Inl IndexOutOfRange
      | row0 # _ \<Rightarrow>
          if isInBounds x y (int (length row0)) (int (length g))
          then set_cell g x y symbol
          else Inr g)"

text \<open>
  A \<open>for\<close> loop over a list of values whose body may panic; \<open>'s\<close> is what the loop
  updates (the grid, or the grid and the position index).
\<close>

fun for_each :: "('a \<Rightarrow> 's \<Rightarrow> fault + 's) \<Rightarrow> 'a list \<Rightarrow> 's \<Rightarrow> fault + 's" where
  "for_each body [] g = Inr g"
| "for_each body (i # is) g =
     (case body i g of Inl e \<Rightarrow> Inl e | Inr g' \<Rightarrow> for_each body is g')"

text \<open>
  \<open>CircleDrawer\<close> has the one field \<open>aspectRatio\<close>, the first argument of its methods.
  The conversion \<open>int(f)\<close> is \<open>go_int\<close>: exact for a value within the range of \<open>int\<close>.
\<close>

definition CalculatePosition :: "real \<Rightarrow> int \<Rightarrow> int \<Rightarrow> real \<Rightarrow> real \<Rightarrow> int \<times> int" where
  "CalculatePosition aspect centerX centerY radius angle =
     (centerX + go_int (radius * cos angle * aspect), centerY + go_int (radius * sin angle))"

definition DrawCircle_step ::
  "real \<Rightarrow> int \<Rightarrow> int \<Rightarrow> real \<Rightarrow> rune \<Rightarrow> int \<Rightarrow> nat \<Rightarrow> grid \<Rightarrow> fault + grid" where
  "DrawCircle_step aspect centerX centerY radius symbol steps i g =
     (let angle = real i * 2 * pi / of_int steps;
          x = centerX + go_int (radius * cos angle * aspect);
          y = centerY + go_int (radius * sin angle)
      in plot_blank g x y symbol)"

definition DrawCircle :: "real \<Rightarrow> grid \<Rightarrow> int \<Rightarrow> int \<Rightarrow> real \<Rightarrow> rune \<Rightarrow> fault + grid" where
  "DrawCircle aspect g centerX centerY radius symbol =
     (let circumference = 2 * pi * radius;
          steps0 = go_int (circumference * 4);
          steps = (if steps0 < 720 then 720 else steps0)
      in for_each (DrawCircle_step aspect centerX centerY radius symbol steps)
           [0..<nat steps] g)"

definition DrawFilledCircle_row ::
  "real \<Rightarrow> int \<Rightarrow> int \<Rightarrow> int \<Rightarrow> rune \<Rightarrow> int \<Rightarrow> grid \<Rightarrow> fault + grid" where
  "DrawFilledCircle_row aspect centerX centerY radius symbol dy g =
     (let rowWidth = sqrt (of_int (radius * radius - dy * dy));
          maxDx = go_int (rowWidth * aspect)
      in for_each (\<lambda>dx g'. plot g' (centerX + dx) (centerY + dy) symbol) [- maxDx..maxDx] g)"

definition DrawFilledCircle :: "real \<Rightarrow> grid \<Rightarrow> int \<Rightarrow> int \<Rightarrow> int \<Rightarrow> rune \<Rightarrow> fault + grid" where
  "DrawFilledCircle aspect g centerX centerY radius symbol =
     for_each (DrawFilledCircle_row aspect centerX centerY radius symbol) [- radius..radius] g"

section \<open>DebrisBeltRenderer\<close>

text \<open>
  The outer loop of \<open>renderDebrisBelt\<close>, \<open>for angle := 0; angle < 360; angle += angleStep\<close>.
  It ends for a positive step. With a step of zero it never ends, and with a negative step
  it would end only when the counter wraps around: both are \<open>NoReturn\<close>. The two callers
  pass 10 and 12.
\<close>

function angle_loop ::
  "(int \<Rightarrow> grid \<Rightarrow> fault + grid) \<Rightarrow> int \<Rightarrow> int \<Rightarrow> grid \<Rightarrow> fault + grid" where
  "angle_loop body angleStep angle g =
     (if angleStep \<le> 0 then Inl NoReturn
      else if angle < 360
      then (case body angle g of
              Inl e \<Rightarrow> Inl e
            | Inr g' \<Rightarrow> angle_loop body angleStep (angle + angleStep) g')
      else Inr g)"
  by pat_completeness auto
termination
  by (relation "measure (\<lambda>(body, angleStep, angle, g). nat (360 - angle))") auto

declare angle_loop.simps [simp del]

definition renderDebrisBelt_ring ::
  "real \<Rightarrow> int \<Rightarrow> int \<Rightarrow> real \<Rightarrow> real \<Rightarrow> int \<Rightarrow> rune \<Rightarrow> real \<Rightarrow> nat \<Rightarrow> grid \<Rightarrow> fault + grid" where
  "renderDebrisBelt_ring aspect centerX centerY innerRadius outerRadius rings symbol radians i g =
     (let radius = innerRadius + real i * (outerRadius - innerRadius) / of_int rings
      in case CalculatePosition aspect centerX centerY radius radians of
           (x, y) \<Rightarrow> plot_blank g x y symbol)"

definition renderDebrisBelt ::
  "real \<Rightarrow> grid \<Rightarrow> int \<Rightarrow> int \<Rightarrow> real \<Rightarrow> real \<Rightarrow> int \<Rightarrow> int \<Rightarrow> rune \<Rightarrow> fault + grid" where
  "renderDebrisBelt aspect g centerX centerY innerRadius outerRadius angleStep rings symbol =
     angle_loop
       (\<lambda>angle g'.
          let radians = of_int angle * 3.14159 / 180
          in for_each
               (renderDebrisBelt_ring aspect centerX centerY innerRadius outerRadius rings symbol
                  radians)
               [0..<nat rings] g')
       angleStep 0 g"

section \<open>CelestialObjectRenderer: sizes and symbols\<close>

definition getTerminalSizeFactor :: "CelestialObjectRenderer \<Rightarrow> real" where
  "getTerminalSizeFactor cor =
     (let minDimension = min (of_int (cor_width cor)) (of_int (cor_height cor));
          baseDimension = 36;
          sizeFactor = minDimension / baseDimension
      in if sizeFactor < 0.5 then 0.5 else if sizeFactor > 2.5 then 2.5 else sizeFactor)"

definition scalePlanetSize :: "CelestialObjectRenderer \<Rightarrow> real \<Rightarrow> int" where
  "scalePlanetSize cor meanRadius =
     (if meanRadius \<le> 0 then 1
      else let terminalSizeFactor = getTerminalSizeFactor cor;
               logRadius = log 10 meanRadius;
               baseSize = (if logRadius \<ge> 4.8 then 3
                           else if logRadius \<ge> 4.7 then 2
                           else if logRadius \<ge> 4.3 then 2
                           else if logRadius \<ge> 3.7 then 1
                           else if logRadius \<ge> 3.3 then 1
                           else (1::int));
               scaledSize0 = go_int (of_int baseSize * terminalSizeFactor);
               scaledSize = (if scaledSize0 < 1 then 1 else scaledSize0)
           in if scaledSize > baseSize then baseSize else scaledSize)"

text \<open>
  The last line of \<open>scalePlanetSize\<close> is the lookup in \<open>maxSizes\<close>, the map
  \<open>{3: 3, 2: 2, 1: 1}\<close>: \<open>baseSize\<close> is always one of its keys and its value is the key.
\<close>

definition scaleSunSize :: "CelestialObjectRenderer \<Rightarrow> int" where
  "scaleSunSize cor =
     (let terminalSizeFactor = getTerminalSizeFactor cor;
          baseSize = 3;
          scaledSize = go_int (baseSize * terminalSizeFactor)
      in if scaledSize < 2 then 2 else if scaledSize > 4 then 4 else scaledSize)"

definition scaleStarSize :: "CelestialObjectRenderer \<Rightarrow> real \<Rightarrow> int \<Rightarrow> int" where
  "scaleStarSize cor meanRadius numStars = (if numStars = 1 then scaleSunSize cor else 2)"

text \<open>
  A \<open>range\<close> loop over a string yields its runes: the bytes are decoded as UTF-8 and a
  byte that starts no valid encoding yields U+FFFD and is skipped alone. \<open>cont\<close> is the test
  of a continuation byte against its accepted range.
\<close>

definition cont :: "nat \<Rightarrow> nat \<Rightarrow> nat \<Rightarrow> bool" where
  "cont lo hi b = (lo \<le> b \<and> b \<le> hi)"

definition second_lo :: "nat \<Rightarrow> nat" where
  "second_lo b0 = (if b0 = 0xE0 then 0xA0 else if b0 = 0xF0 then 0x90 else 0x80)"

definition second_hi :: "nat \<Rightarrow> nat" where
  "second_hi b0 = (if b0 = 0xED then 0x9F else if b0 = 0xF4 then 0x8F else 0xBF)"

fun decode_runes :: "nat list \<Rightarrow> rune list" where
  "decode_runes [] = []"
| "decode_runes (b0 # bs) =
     (if b0 < 0x80 then b0 # decode_runes bs
      else if 0xC2 \<le> b0 \<and> b0 \<le> 0xDF then
        (case bs of
           b1 # r1 \<Rightarrow>
             if cont 0x80 0xBF b1 then (b0 mod 32 * 64 + b1 mod 64) # decode_runes r1
             else 0xFFFD # decode_runes bs
         | _ \<Rightarrow> 0xFFFD # decode_runes bs)
      else if 0xE0 \<le> b0 \<and> b0 \<le> 0xEF then
        (case bs of
           b1 # b2 # r2 \<Rightarrow>
             if cont (second_lo b0) (second_hi b0) b1 \<and> cont 0x80 0xBF b2
             then (b0 mod 16 * 4096 + b1 mod 64 * 64 + b2 mod 64) # decode_runes r2
             else 0xFFFD # decode_runes bs
         | _ \<Rightarrow> 0xFFFD # decode_runes bs)
      else if 0xF0 \<le> b0 \<and> b0 \<le> 0xF4 then
        (case bs of
           b1 # b2 # b3 # r3 \<Rightarrow>
             if cont (second_lo b0) (second_hi b0) b1 \<and> cont 0x80 0xBF b2 \<and> cont 0x80 0xBF b3
             then (b0 mod 8 * 262144 + b1 mod 64 * 4096 + b2 mod 64 * 64 + b3 mod 64)
                    # decode_runes r3
             else 0xFFFD # decode_runes bs
         | _ \<Rightarrow> 0xFFFD # decode_runes bs)
      else 0xFFFD # decode_runes bs)"

definition runes_of :: "string \<Rightarrow> rune list" where
  "runes_of name = decode_runes (map of_char name)"

text \<open>The palette of \<open>generateGenericSymbol\<close>, twenty runes.\<close>

definition genericSymbols :: "rune list" where
  "genericSymbols =
     [0x25CF, 0x25C9, 0x25CE, 0x25CB, 0x25EF, 0x2B24, 0x26AB, 0x26AA, 0x1FA90, 0x1F30D,
      0x1F30E, 0x1F30F, 0x1F311, 0x1F312, 0x1F313, 0x1F314, 0x1F315, 0x1F316, 0x1F317, 0x1F318]"

definition name_hash :: "string \<Rightarrow> nat" where
  "name_hash name =
     foldl (\<lambda>hash char. (hash + char) mod length genericSymbols) 0 (runes_of name)"

definition generateGenericSymbol :: "string \<Rightarrow> rune" where
  "generateGenericSymbol name = genericSymbols ! name_hash name"

definition knownSymbols :: "string \<Rightarrow> rune option" where
  "knownSymbols =
     map_of
       [(''Sun'', 0x2609), (''Mercury'', 0x263F), (''Venus'', 0x2640), (''Earth'', 0x2641),
        (''Mars'', 0x2642), (''Jupiter'', 0x2643), (''Saturn'', 0x2644), (''Uranus'', 0x2645),
        (''Neptune'', 0x2646), (''Pluto'', 0x2647)]"

definition GetPlanetSymbol :: "string \<Rightarrow> rune" where
  "GetPlanetSymbol name =
     (case knownSymbols name of Some symbol \<Rightarrow> symbol | None \<Rightarrow> generateGenericSymbol name)"

section \<open>CelestialObjectRenderer: stars\<close>

text \<open>
  \<open>math.Pow\<close> is \<open>powr\<close> here: its base is positive at both calls.
\<close>

definition getStarMass :: "CelestialBody \<Rightarrow> real" where
  "getStarMass star =
     (if MassValue (BodyMass star) > 0
      then MassValue (BodyMass star) * 10 powr of_int (MassExponent (BodyMass star))
      else if MeanRadius star > 0
      then let sunRadius = 695700;
               radiusRatio = MeanRadius star / sunRadius
           in radiusRatio powr 2.5 * 1989000000000000000000000000000
      else 1989000000000000000000000000000)"

definition classifyByTemperature :: "real \<Rightarrow> string" where
  "classifyByTemperature temp =
     (if temp \<ge> 30000 then ''O5V''
      else if temp \<ge> 10000 then ''B5V''
      else if temp \<ge> 7500 then ''A5V''
      else if temp \<ge> 6000 then ''F5V''
      else if temp \<ge> 5200 then ''G5V''
      else if temp \<ge> 3700 then ''K5V''
      else ''M5V'')"

definition getTemperature :: "CelestialBody \<Rightarrow> real option" where
  "getTemperature star = (if Temperature star > 0 then Some (Temperature star) else None)"

definition getStellarClass :: "CelestialBody \<Rightarrow> string" where
  "getStellarClass star =
     (if StellarClass star \<noteq> [] then StellarClass star
      else case getTemperature star of
        Some temp \<Rightarrow> classifyByTemperature temp
      | None \<Rightarrow>
          let mass = getStarMass star;
              solarMass = 1989000000000000000000000000000;
              massRatio = mass / solarMass
          in if massRatio > 16 then ''O5V''
             else if massRatio > 2.1 then ''B5V''
             else if massRatio > 1.4 then ''A5V''
             else if massRatio > 1.04 then ''F5V''
             else if massRatio > 0.8 then ''G5V''
             else if massRatio > 0.45 then ''K5V''
             else ''M5V'')"

text \<open>
  \<open>getStarSymbol\<close> reads \<open>stellarClass[0]\<close>, the first byte of the class, which panics on an
  empty string.
\<close>

definition getStarSymbol :: "CelestialBody \<Rightarrow> fault + rune" where
  "getStarSymbol star =
     (case getStellarClass star of
        [] \<Rightarrow> Inl IndexOutOfRange
      | c # _ \<Rightarrow>
          Inr (if c = CHR ''O'' \<or> c = CHR ''B'' then 0x2726
               else if c = CHR ''A'' \<or> c = CHR ''F'' then 0x2727
               else if c = CHR ''G'' then 0x2609
               else if c = CHR ''K'' then 0x2729
               else if c = CHR ''M'' then 0x272A
               else if EnglishName star = ''Sun'' then 0x2609
               else 0x2B50))"

text \<open>Star positions. \<open>StarPosition\<close> is a pair \<open>(X, Y)\<close>.\<close>

type_synonym StarPosition = "int \<times> int"

definition calculateBinarySeparation :: "CelestialObjectRenderer \<Rightarrow> real" where
  "calculateBinarySeparation cor =
     (let terminalSizeFactor = getTerminalSizeFactor cor;
          baseSeparation = 6 * terminalSizeFactor;
          minSeparation = 6
      in max baseSeparation minSeparation)"

definition calculateMultiStarRadius :: "CelestialObjectRenderer \<Rightarrow> int \<Rightarrow> real" where
  "calculateMultiStarRadius cor numStars =
     (let terminalSizeFactor = getTerminalSizeFactor cor;
          baseRadius = 3 * terminalSizeFactor
      in if numStars > 3 then baseRadius * 1.3 else baseRadius)"

definition calculateBinaryOrbitalPeriod :: "CelestialBody list \<Rightarrow> real \<Rightarrow> real" where
  "calculateBinaryOrbitalPeriod stars separation =
     (case stars of
        [star1, star2] \<Rightarrow>
          let mass1 = getStarMass star1;
              mass2 = getStarMass star2;
              totalMass = mass1 + mass2;
              solarMass = 1989000000000000000000000000000;
              totalMassRatio = totalMass / solarMass;
              basePeriod = 20;
              periodScaling = (separation / 10) powr 1.5 / sqrt totalMassRatio;
              period = basePeriod * periodScaling
          in if period < 10 then 10 else if period > 120 then 120 else period
      | _ \<Rightarrow> 30)"

definition calculateMultiStarRotationPeriod :: "int \<Rightarrow> real" where
  "calculateMultiStarRotationPeriod numStars =
     (let basePeriod = 30;
          period = basePeriod * (1 + of_int (numStars - 3) * 0.5)
      in if period < 20 then 20 else if period > 90 then 90 else period)"

text \<open>
  The distances \<open>r1\<close> and \<open>r2\<close> of the two stars from the barycenter, as
  \<open>calculateBinaryStarPositions\<close> computes them from the masses and the separation.
\<close>

definition binaryRadii :: "CelestialObjectRenderer \<Rightarrow> CelestialBody \<Rightarrow> CelestialBody \<Rightarrow> real \<times> real" where
  "binaryRadii cor star1 star2 =
     (let mass1 = getStarMass star1;
          mass2 = getStarMass star2;
          totalMass = mass1 + mass2;
          baseSeparation = calculateBinarySeparation cor;
          r1 = baseSeparation * (mass2 / totalMass);
          r2 = baseSeparation * (mass1 / totalMass)
      in (r1, r2))"

definition calculateBinaryStarPositions ::
  "CelestialObjectRenderer \<Rightarrow> time \<Rightarrow> CelestialBody list \<Rightarrow> int \<Rightarrow> int \<Rightarrow> StarPosition list" where
  "calculateBinaryStarPositions cor now stars centerX centerY =
     (case stars of
        [star1, star2] \<Rightarrow>
          (case binaryRadii cor star1 star2 of
             (r1, r2) \<Rightarrow>
               let elapsed = Seconds (time_Sub now (startTime cor));
                   orbitalPeriod = calculateBinaryOrbitalPeriod stars (calculateBinarySeparation cor);
                   angle = 2 * pi * elapsed / orbitalPeriod;
                   x1 = centerX + go_int (r1 * cos angle);
                   y1 = centerY + go_int (r1 * sin angle * 0.5);
                   x2 = centerX - go_int (r2 * cos angle);
                   y2 = centerY - go_int (r2 * sin angle * 0.5)
               in [(x1, y1), (x2, y2)])
      | _ \<Rightarrow> [(centerX, centerY)])"

definition calculateMultipleStarPositions ::
  "CelestialObjectRenderer \<Rightarrow> time \<Rightarrow> CelestialBody list \<Rightarrow> int \<Rightarrow> int \<Rightarrow> StarPosition list" where
  "calculateMultipleStarPositions cor now stars centerX centerY =
     (let n = int (length stars);
          ringRadius = calculateMultiStarRadius cor n
      in map (\<lambda>i. let angle0 = 2 * pi * real i / of_int n;
                       elapsed = Seconds (time_Sub now (startTime cor));
                       rotationPeriod = calculateMultiStarRotationPeriod n;
                       rotationAngle = 2 * pi * elapsed / rotationPeriod;
                       angle = angle0 + rotationAngle
                   in (centerX + go_int (ringRadius * cos angle),
                       centerY + go_int (ringRadius * sin angle * 0.5)))
           [0..<length stars])"

definition calculateStarPositions ::
  "CelestialObjectRenderer \<Rightarrow> time \<Rightarrow> CelestialBody list \<Rightarrow> int \<Rightarrow> int \<Rightarrow> StarPosition list" where
  "calculateStarPositions cor now stars centerX centerY =
     (if length stars \<le> 1 then [(centerX, centerY)]
      else if length stars = 2 then calculateBinaryStarPositions cor now stars centerX centerY
      else calculateMultipleStarPositions cor now stars centerX centerY)"

section \<open>CelestialObjectRenderer: rendering\<close>

definition RenderSun :: "CelestialObjectRenderer \<Rightarrow> grid \<Rightarrow> int \<Rightarrow> int \<Rightarrow> fault + grid" where
  "RenderSun cor g centerX centerY =
     DrawFilledCircle (aspectRatio cor) g centerX centerY (scaleSunSize cor) 0x2609"

text \<open>The body of the loop of \<open>RenderStars\<close> over the stars and their positions.\<close>

definition RenderStars_step ::
  "CelestialObjectRenderer \<Rightarrow> int \<Rightarrow> CelestialBody \<times> StarPosition \<Rightarrow> grid \<Rightarrow> fault + grid" where
  "RenderStars_step cor numStars sp g =
     (case sp of
        (star, (px, py)) \<Rightarrow>
          let starRadius = scaleStarSize cor (MeanRadius star) numStars
          in case getStarSymbol star of
               Inl e \<Rightarrow> Inl e
             | Inr symbol \<Rightarrow>
                 if starRadius \<le> 1 then plot g px py symbol
                 else DrawFilledCircle (aspectRatio cor) g px py starRadius symbol)"

definition RenderStars ::
  "CelestialObjectRenderer \<Rightarrow> time \<Rightarrow> grid \<Rightarrow> int \<Rightarrow> int \<Rightarrow> CelestialBody list \<Rightarrow> fault + grid" where
  "RenderStars cor now g centerX centerY stars =
     (case stars of
        [star] \<Rightarrow>
          let starRadius = scaleStarSize cor (MeanRadius star) 1
          in (case getStarSymbol star of
                Inl e \<Rightarrow> Inl e
              | Inr symbol \<Rightarrow> DrawFilledCircle (aspectRatio cor) g centerX centerY starRadius symbol)
      | _ \<Rightarrow>
          let positions = calculateStarPositions cor now stars centerX centerY
          in for_each (RenderStars_step cor (int (length stars))) (zip stars positions) g)"

definition RenderPlanet ::
  "CelestialObjectRenderer \<Rightarrow> time \<Rightarrow> grid \<Rightarrow> int \<Rightarrow> int \<Rightarrow> CelestialBody \<Rightarrow> real \<Rightarrow> fault + grid" where
  "RenderPlanet cor now g centerX centerY planet radius =
     (let angle = getOrbitalAngle cor now planet
      in case CalculatePosition (aspectRatio cor) centerX centerY radius angle of
           (px, py) \<Rightarrow>
             let planetRadius = scalePlanetSize cor (MeanRadius planet);
                 symbol = GetPlanetSymbol (EnglishName planet)
             in if planetRadius \<le> 1 then plot g px py symbol
                else DrawFilledCircle (aspectRatio cor) g px py planetRadius symbol)"

definition RenderOrbit :: "CelestialObjectRenderer \<Rightarrow> grid \<Rightarrow> int \<Rightarrow> int \<Rightarrow> real \<Rightarrow> fault + grid" where
  "RenderOrbit cor g centerX centerY radius =
     DrawCircle (aspectRatio cor) g centerX centerY radius 0xB7"

section \<open>DebrisBeltRenderer: the two belts\<close>

record DebrisBeltRenderer =
  dbr_circleDrawer :: real
  dbr_scaler :: DistanceScaler

text \<open>The map \<open>defaults\<close> of \<open>findPlanetDistances\<close>; a missing key reads as 0.\<close>

definition belt_defaults :: "string \<Rightarrow> real" where
  "belt_defaults name =
     (case map_of [(''Mars'', 1.5), (''Jupiter'', 5.2), (''Neptune'', 30)] name of
        Some d \<Rightarrow> d | None \<Rightarrow> 0)"

definition findPlanetDistances :: "CelestialBody list \<Rightarrow> string \<Rightarrow> string \<Rightarrow> real \<times> real" where
  "findPlanetDistances planets planet1 planet2 =
     (case foldl (\<lambda>(dist1, dist2) planet.
                    ((if EnglishName planet = planet1 \<and> EnglishName planet \<noteq> ''Sun''
                      then SemimajorAxis planet else dist1),
                     (if EnglishName planet = planet2 \<and> EnglishName planet \<noteq> ''Sun''
                      then SemimajorAxis planet else dist2)))
             (0, 0) planets of
        (dist1, dist2) \<Rightarrow>
          ((if dist1 = 0 then belt_defaults planet1 else dist1),
           (if dist2 = 0 then belt_defaults planet2 else dist2)))"

text \<open>The map \<open>defaults\<close> of \<open>findPlanetDistance\<close> has the one key Neptune.\<close>

fun findPlanetDistance :: "CelestialBody list \<Rightarrow> string \<Rightarrow> real" where
  "findPlanetDistance [] planetName = (if planetName = ''Neptune'' then 30 else 0)"
| "findPlanetDistance (planet # planets) planetName =
     (if EnglishName planet = planetName \<and> EnglishName planet \<noteq> ''Sun''
      then SemimajorAxis planet
      else findPlanetDistance planets planetName)"

text \<open>
  A belt between two scaled radii. The radii come from \<open>ScaleDistance\<close>; when one is not
  finite, its conversion to \<open>int\<close> in \<open>CalculatePosition\<close> is \<open>NonFiniteToInt\<close>.
\<close>

definition render_belt ::
  "DebrisBeltRenderer \<Rightarrow> grid \<Rightarrow> int \<Rightarrow> int \<Rightarrow> float64 \<Rightarrow> float64 \<Rightarrow> int \<Rightarrow> int \<Rightarrow> rune \<Rightarrow> fault + grid" where
  "render_belt dbr g centerX centerY inner outer angleStep rings symbol =
     (case (inner, outer) of
        (Finite innerRadius, Finite outerRadius) \<Rightarrow>
          renderDebrisBelt (dbr_circleDrawer dbr) g centerX centerY innerRadius outerRadius
            angleStep rings symbol
      | _ \<Rightarrow> Inl NonFiniteToInt)"

definition RenderAsteroidBelt ::
  "DebrisBeltRenderer \<Rightarrow> grid \<Rightarrow> int \<Rightarrow> int \<Rightarrow> CelestialBody list \<Rightarrow> fault + grid" where
  "RenderAsteroidBelt dbr g centerX centerY planets =
     (case findPlanetDistances planets ''Mars'' ''Jupiter'' of
        (marsDistance, jupiterDistance) \<Rightarrow>
          let innerRadius = ScaleDistance (dbr_scaler dbr) (marsDistance * 1.5) planets;
              outerRadius = ScaleDistance (dbr_scaler dbr) (jupiterDistance * 0.6) planets
          in render_belt dbr g centerX centerY innerRadius outerRadius 10 3 0x2217)"

definition RenderKuiperBelt ::
  "DebrisBeltRenderer \<Rightarrow> grid \<Rightarrow> int \<Rightarrow> int \<Rightarrow> CelestialBody list \<Rightarrow> fault + grid" where
  "RenderKuiperBelt dbr g centerX centerY planets =
     (let neptuneDistance = findPlanetDistance planets ''Neptune'';
          innerRadius = ScaleDistance (dbr_scaler dbr) (neptuneDistance * 1.2) planets;
          outerRadius = ScaleDistance (dbr_scaler dbr) (neptuneDistance * 1.7) planets
      in render_belt dbr g centerX centerY innerRadius outerRadius 12 4 0x25E6)"

section \<open>Renderer: the render pass\<close>

record PlanetPosition =
  X :: int
  Y :: int
  Radius :: int
  Planet :: CelestialBody

record Renderer =
  r_width :: int
  r_height :: int
  circleDrawer :: real
  celestialRenderer :: CelestialObjectRenderer
  debrisBeltRenderer :: DebrisBeltRenderer
  distanceScaler :: DistanceScaler

text \<open>\<open>make\<close> panics on a negative length.\<close>

definition createGrid :: "int \<Rightarrow> int \<Rightarrow> fault + grid" where
  "createGrid width height =
     (if height < 0 then Inl MakeSliceLen
      else if height > 0 \<and> width < 0 then Inl MakeSliceLen
      else Inr (replicate (nat height) (replicate (nat width) blank)))"

definition is_star :: "CelestialBody \<Rightarrow> bool" where
  "is_star body =
     (BodyType body = ''Star'' \<or> EnglishName body = ''Sun''
      \<or> (SemimajorAxis body = 0 \<and> \<not> IsPlanet body))"

definition separateStarsAndPlanets ::
  "CelestialBody list \<Rightarrow> CelestialBody list \<times> CelestialBody list" where
  "separateStarsAndPlanets bodies = (filter is_star bodies, filter (\<lambda>body. \<not> is_star body) bodies)"

text \<open>
  The body of the planet loop of \<open>RenderSolarSystemData\<close>: \<open>continue\<close> for a semimajor
  axis that is not positive; else scale the distance, draw the orbit, draw the planet.
\<close>

definition render_planet ::
  "Renderer \<Rightarrow> CelestialObjectRenderer \<Rightarrow> time \<Rightarrow> int \<Rightarrow> int \<Rightarrow> CelestialBody list \<Rightarrow>
   CelestialBody \<Rightarrow> grid \<Rightarrow> fault + grid" where
  "render_planet r cor now centerX centerY actualPlanets planet g =
     (if SemimajorAxis planet \<le> 0 then Inr g
      else case ScaleDistance (distanceScaler r) (SemimajorAxis planet) actualPlanets of
             Finite radius \<Rightarrow>
               (case RenderOrbit cor g centerX centerY radius of
                  Inl e \<Rightarrow> Inl e
                | Inr g' \<Rightarrow> RenderPlanet cor now g' centerX centerY planet radius)
           | _ \<Rightarrow> Inl NonFiniteToInt)"

text \<open>The stars (or the default sun) and the two belts, which both render passes draw first.\<close>

definition render_background ::
  "Renderer \<Rightarrow> CelestialObjectRenderer \<Rightarrow> time \<Rightarrow> int \<Rightarrow> int \<Rightarrow> CelestialBody list \<Rightarrow>
   CelestialBody list \<Rightarrow> grid \<Rightarrow> fault + grid" where
  "render_background r cor now centerX centerY stars actualPlanets g =
     (case (if length stars > 0 then RenderStars cor now g centerX centerY stars
            else RenderSun cor g centerX centerY) of
        Inl e \<Rightarrow> Inl e
      | Inr g1 \<Rightarrow>
          (case RenderAsteroidBelt (debrisBeltRenderer r) g1 centerX centerY actualPlanets of
             Inl e \<Rightarrow> Inl e
           | Inr g2 \<Rightarrow> RenderKuiperBelt (debrisBeltRenderer r) g2 centerX centerY actualPlanets))"

definition RenderSolarSystemData ::
  "Renderer \<Rightarrow> time \<Rightarrow> CelestialBody list \<Rightarrow> int \<Rightarrow> int \<Rightarrow> fault + grid" where
  "RenderSolarSystemData r now planets width height =
     (let centerX = width sdiv 2;
          centerY = height sdiv 2;
          cor = (celestialRenderer r)\<lparr>cor_width := r_width r, cor_height := r_height r\<rparr>
      in case createGrid width height of
           Inl e \<Rightarrow> Inl e
         | Inr g \<Rightarrow>
             (case separateStarsAndPlanets planets of
                (stars, actualPlanets) \<Rightarrow>
                  (case render_background r cor now centerX centerY stars actualPlanets g of
                     Inl e \<Rightarrow> Inl e
                   | Inr g' \<Rightarrow>
                       for_each (render_planet r cor now centerX centerY actualPlanets)
                         actualPlanets g')))"

text \<open>
  \<open>RenderSolarSystemDataWithPositions\<close> draws the same pass and fills the position index,
  a map from the name of a body to its \<open>PlanetPosition\<close>: first an entry for every star,
  then, in the planet loop, an entry for every planet the loop does not skip.
\<close>

type_synonym position_index = "string \<rightharpoonup> PlanetPosition"

definition star_entries ::
  "CelestialObjectRenderer \<Rightarrow> int \<Rightarrow> int \<Rightarrow> CelestialBody list \<Rightarrow> position_index \<Rightarrow> position_index" where
  "star_entries cor centerX centerY stars planetPositions =
     foldl (\<lambda>m star. m(EnglishName star \<mapsto>
                          \<lparr>X = centerX, Y = centerY, Radius = scaleSunSize cor, Planet = star\<rparr>))
       planetPositions stars"

definition render_planet_with_position ::
  "Renderer \<Rightarrow> CelestialObjectRenderer \<Rightarrow> time \<Rightarrow> int \<Rightarrow> int \<Rightarrow> CelestialBody list \<Rightarrow>
   CelestialBody \<Rightarrow> grid \<times> position_index \<Rightarrow> fault + grid \<times> position_index" where
  "render_planet_with_position r cor now centerX centerY actualPlanets planet gm =
     (case gm of
        (g, planetPositions) \<Rightarrow>
          if SemimajorAxis planet \<le> 0 then Inr (g, planetPositions)
          else case ScaleDistance (distanceScaler r) (SemimajorAxis planet) actualPlanets of
                 Finite radius \<Rightarrow>
                   (case RenderOrbit cor g centerX centerY radius of
                      Inl e \<Rightarrow> Inl e
                    | Inr g' \<Rightarrow>
                        let angle = getOrbitalAngle cor now planet
                        in case CalculatePosition (circleDrawer r) centerX centerY radius angle of
                             (px, py) \<Rightarrow>
                               let planetRadius = scalePlanetSize cor (MeanRadius planet);
                                   planetPositions' =
                                     planetPositions(EnglishName planet \<mapsto>
                                       \<lparr>X = px, Y = py, Radius = planetRadius, Planet = planet\<rparr>)
                               in case RenderPlanet cor now g' centerX centerY planet radius of
                                    Inl e \<Rightarrow> Inl e
                                  | Inr g'' \<Rightarrow> Inr (g'', planetPositions'))
               | _ \<Rightarrow> Inl NonFiniteToInt)"

definition RenderSolarSystemDataWithPositions ::
  "Renderer \<Rightarrow> time \<Rightarrow> CelestialBody list \<Rightarrow> int \<Rightarrow> int \<Rightarrow> int \<Rightarrow> int \<Rightarrow>
   fault + grid \<times> position_index" where
  "RenderSolarSystemDataWithPositions r now planets width height screenWidth screenHeight =
     (let centerX = width sdiv 2;
          centerY = height sdiv 2;
          cor = (celestialRenderer r)\<lparr>cor_width := screenWidth, cor_height := screenHeight\<rparr>
      in case createGrid width height of
           Inl e \<Rightarrow> Inl e
         | Inr g \<Rightarrow>
             (case separateStarsAndPlanets planets of
                (stars, actualPlanets) \<Rightarrow>
                  (case render_background r cor now centerX centerY stars actualPlanets g of
                     Inl e \<Rightarrow> Inl e
                   | Inr g' \<Rightarrow>
                       for_each (render_planet_with_position r cor now centerX centerY actualPlanets)
                         actualPlanets
                         (g', star_entries cor centerX centerY stars Map.empty))))"

section \<open>The spectral-class table of the specification\<close>

text \<open>
  The glyph table in the words of the specification, to compare \<open>getStarSymbol\<close> with:
  class O or B one glyph, A or F another, G the Sun-like glyph, K the orange-star glyph,
  M the red-dwarf glyph, anything else the generic star glyph.
\<close>

definition spec_class_glyph :: "char \<Rightarrow> rune" where
  "spec_class_glyph c =
     (if c = CHR ''O'' \<or> c = CHR ''B'' then 0x2726
      else if c = CHR ''A'' \<or> c = CHR ''F'' then 0x2727
      else if c = CHR ''G'' then 0x2609
      else if c = CHR ''K'' then 0x2729
      else if c = CHR ''M'' then 0x272A
      else 0x2B50)"

definition star_glyphs :: "rune set" where
  "star_glyphs = {0x2726, 0x2727, 0x2609, 0x2729, 0x272A, 0x2B50}"

section \<open>The star mass of the specification\<close>

text \<open>
  The effective mass of a star in the words of the specification, to compare \<open>getStarMass\<close>
  with: the recorded mass (value times ten to the exponent); when no mass is recorded, the
  mass approximated from the radius by \<open>M/M_sun = (R/R_sun)^2.5\<close>; when no radius is
  recorded either, one solar mass. The solar radius is 695700 km and the solar mass
  \<open>1.989 \<times> 10^30\<close> kg.
\<close>

definition solar_mass :: real where
  "solar_mass = 1989 * 10 ^ 27"

definition solar_radius :: real where
  "solar_radius = 695700"

definition spec_star_mass :: "CelestialBody \<Rightarrow> real" where
  "spec_star_mass star =
     (if 0 < MassValue (BodyMass star)
      then MassValue (BodyMass star) * 10 powr of_int (MassExponent (BodyMass star))
      else if 0 < MeanRadius star
      then (MeanRadius star / solar_radius) powr 2.5 * solar_mass
      else solar_mass)"

section \<open>Well-formed grids\<close>

text \<open>
  The grid of the data model is rectangular: every row has the length of the first.
  \<open>createGrid\<close> makes such grids.
\<close>

definition rectangular :: "grid \<Rightarrow> bool" where
  "rectangular g = list_all (\<lambda>row. length row = length (hd g)) g"

text \<open>A well-formed grid: rectangular, with at least one row.\<close>

definition wf_grid :: "grid \<Rightarrow> bool" where
  "wf_grid g = (rectangular g \<and> g \<noteq> [])"

text \<open>Two grids of the same shape: the same number of rows, and rows of the same lengths.\<close>

definition same_shape :: "grid \<Rightarrow> grid \<Rightarrow> bool" where
  "same_shape g g' = (map length g' = map length g)"

text \<open>
  What a drawing call did to a grid: \<open>g'\<close> has the shape of \<open>g\<close>, and every cell of
  \<open>g'\<close> either holds what it held in \<open>g\<close> or holds \<open>symbol\<close>, and then
  \<open>allowed x y c\<close> holds of its column \<open>x\<close>, its row \<open>y\<close> and the rune \<open>c\<close> it held
  in \<open>g\<close>.
\<close>

definition paints :: "(int \<Rightarrow> int \<Rightarrow> rune \<Rightarrow> bool) \<Rightarrow> rune \<Rightarrow> grid \<Rightarrow> grid \<Rightarrow> bool" where
  "paints allowed symbol g g' =
     (same_shape g g' \<and>
      list_all
        (\<lambda>y. list_all
               (\<lambda>x. g' ! y ! x = g ! y ! x \<or>
                    (g' ! y ! x = symbol \<and> allowed (int x) (int y) (g ! y ! x)))
               [0..<length (g ! y)])
        [0..<length g])"

section \<open>Results about DistanceScaler\<close>

text \<open>From here on the file holds the lemmas and theorems about the model above.\<close>

text \<open>
  C1, at the input the claim names: a body set with exactly one body of positive semimajor
  axis gives \<open>minDistance = maxDistance\<close>, the divisor \<open>logMax - logMin\<close> is zero and
  nothing guards it. Scaling the body's own distance divides zero by zero and returns NaN;
  scaling a larger distance returns an infinity.
\<close>

theorem ScaleDistance_single_body_not_finite:
  "ScaleDistance \<lparr>ds_width = 80, ds_height = 24\<rparr> 5
     [zero_body\<lparr>EnglishName := ''b'', IsPlanet := True, SemimajorAxis := 5\<rparr>] = NaN
   \<and> ScaleDistance \<lparr>ds_width = 80, ds_height = 24\<rparr> 10
     [zero_body\<lparr>EnglishName := ''b'', IsPlanet := True, SemimajorAxis := 5\<rparr>] = PosInf"
  by (simp add: ScaleDistance_def findDistanceRange_def zero_body_def fdiv_def maxRadius_def
      signed_divide_int_def)

text \<open>The range of a body set is positive and ordered.\<close>

lemma range_step_inv:
  "\<lbrakk>foldl range_step (mn0, mx0, f0) planets = (mn, mx, f); f0 \<or> (0 < mn0 \<and> mn0 \<le> mx0)\<rbrakk>
   \<Longrightarrow> f \<or> (0 < mn \<and> mn \<le> mx)"
proof (induction planets arbitrary: mn0 mx0 f0)
  case Nil
  then show ?case by simp
next
  case (Cons p ps)
  obtain a b c where s: "range_step (mn0, mx0, f0) p = (a, b, c)" by (cases "range_step (mn0, mx0, f0) p")
  have "c \<or> (0 < a \<and> a \<le> b)" using s Cons.prems(2) by (auto split: if_splits)
  moreover have "foldl range_step (a, b, c) ps = (mn, mx, f)" using Cons.prems(1) s by simp
  ultimately show ?case by (rule Cons.IH[rotated])
qed

lemma findDistanceRange_pos:
  "findDistanceRange planets = (mn, mx) \<Longrightarrow> 0 < mn \<and> mn \<le> mx"
proof -
  assume a: "findDistanceRange planets = (mn, mx)"
  obtain a' b' c' where f: "foldl range_step (0, 0, True) planets = (a', b', c')"
    by (cases "foldl range_step (0, 0, True) planets")
  have i: "c' \<or> (0 < a' \<and> a' \<le> b')" using range_step_inv[OF f] by simp
  show ?thesis using a f i by (auto simp: findDistanceRange_def split: if_splits)
qed

lemma ScaleDistance_finite:
  assumes r: "findDistanceRange planets = (mn, mx)" and lt: "mn < mx" and d: "0 < d"
  shows "ScaleDistance ds d planets =
           Finite (8 + (ln d - ln mn) / (ln mx - ln mn) * (maxRadius ds - 8))"
proof -
  have "0 < mn" using findDistanceRange_pos[OF r] by simp
  then have "ln mn < ln mx" using lt by simp
  then show ?thesis using d r by (simp add: ScaleDistance_def fdiv_def Let_def)
qed

text \<open>
  With \<open>minDistance < maxDistance\<close> the two ends of the range are mapped to the minimum
  radius 8 and to the maximum radius of the viewport, whatever the viewport.
\<close>

lemma ScaleDistance_endpoints:
  assumes r: "findDistanceRange planets = (mn, mx)" and lt: "mn < mx"
  shows "ScaleDistance ds mn planets = Finite 8
       \<and> ScaleDistance ds mx planets = Finite (maxRadius ds)"
proof -
  have p: "0 < mn" using findDistanceRange_pos[OF r] by simp
  have l: "ln mn < ln mx" using p lt by simp
  have pm: "0 < mx" using p lt by linarith
  have e1: "ScaleDistance ds mn planets = Finite 8"
    using ScaleDistance_finite[OF r lt p] by simp
  have e2: "ScaleDistance ds mx planets = Finite (maxRadius ds)"
    using ScaleDistance_finite[OF r lt pm] l by simp
  show ?thesis using e1 e2 by simp
qed

text \<open>
  The scaling increases with the distance when the maximum radius is at least the minimum
  radius 8, and strictly decreases when it is smaller.
\<close>

lemma ScaleDistance_increasing:
  assumes r: "findDistanceRange planets = (mn, mx)" and lt: "mn < mx"
    and v: "8 \<le> maxRadius ds"
    and d: "mn \<le> d1" "d1 \<le> d2"
  shows "\<exists>r1 r2. ScaleDistance ds d1 planets = Finite r1 \<and> ScaleDistance ds d2 planets = Finite r2
           \<and> r1 \<le> r2"
proof -
  have p: "0 < mn" using findDistanceRange_pos[OF r] by simp
  have l: "ln mn < ln mx" using p lt by simp
  have p1: "0 < d1" and p2: "0 < d2" using p d by linarith+
  have le: "ln d1 \<le> ln d2" using p1 d by simp
  have q: "(ln d1 - ln mn) / (ln mx - ln mn) \<le> (ln d2 - ln mn) / (ln mx - ln mn)"
    using le l by (simp add: divide_right_mono)
  have m: "(ln d1 - ln mn) / (ln mx - ln mn) * (maxRadius ds - 8)
              \<le> (ln d2 - ln mn) / (ln mx - ln mn) * (maxRadius ds - 8)"
    using v by (intro mult_right_mono q) simp
  show ?thesis
    using ScaleDistance_finite[OF r lt p1] ScaleDistance_finite[OF r lt p2] m by simp
qed

lemma ScaleDistance_decreasing:
  assumes r: "findDistanceRange planets = (mn, mx)" and lt: "mn < mx"
    and v: "maxRadius ds < 8"
    and d: "mn \<le> d1" "d1 < d2"
  shows "\<exists>r1 r2. ScaleDistance ds d1 planets = Finite r1 \<and> ScaleDistance ds d2 planets = Finite r2
           \<and> r2 < r1"
proof -
  have p: "0 < mn" using findDistanceRange_pos[OF r] by simp
  have l: "ln mn < ln mx" using p lt by simp
  have p1: "0 < d1" and p2: "0 < d2" using p d by linarith+
  have le: "ln d1 < ln d2" using p1 d by simp
  have q: "(ln d1 - ln mn) / (ln mx - ln mn) < (ln d2 - ln mn) / (ln mx - ln mn)"
    using le l by (simp add: divide_strict_right_mono)
  have m: "(ln d2 - ln mn) / (ln mx - ln mn) * (maxRadius ds - 8)
              < (ln d1 - ln mn) / (ln mx - ln mn) * (maxRadius ds - 8)"
    using v by (intro mult_strict_right_mono_neg q) simp
  show ?thesis
    using ScaleDistance_finite[OF r lt p1] ScaleDistance_finite[OF r lt p2] m by simp
qed

lemma range_ab: "findDistanceRange
     [zero_body\<lparr>EnglishName := ''a'', IsPlanet := True, SemimajorAxis := 1\<rparr>,
      zero_body\<lparr>EnglishName := ''b'', IsPlanet := True, SemimajorAxis := 100\<rparr>] = (1, 100)"
  by (simp add: findDistanceRange_def zero_body_def)

text \<open>
  C4: the scaling is claimed to increase with the distance over the range of the body set.
  \<open>maxRadius\<close> is not kept above \<open>minRadius\<close>: on a terminal of 80 columns and 23 rows it
  is \<open>min (80/2 - 3) (23/2 - 3) \<times> 0.95 = 7.6\<close>, below the minimum radius 8. For a body set
  with semimajor axes 1 and 100 the nearest body is then drawn at radius 8 and the farthest
  at radius 7.6: the order of the orbits is inverted.
\<close>

theorem ScaleDistance_decreasing_small_viewport:
  "findDistanceRange
     [zero_body\<lparr>EnglishName := ''a'', IsPlanet := True, SemimajorAxis := 1\<rparr>,
      zero_body\<lparr>EnglishName := ''b'', IsPlanet := True, SemimajorAxis := 100\<rparr>] = (1, 100)
   \<and> maxRadius \<lparr>ds_width = 80, ds_height = 23\<rparr> = 7.6
   \<and> ScaleDistance \<lparr>ds_width = 80, ds_height = 23\<rparr> 1
     [zero_body\<lparr>EnglishName := ''a'', IsPlanet := True, SemimajorAxis := 1\<rparr>,
      zero_body\<lparr>EnglishName := ''b'', IsPlanet := True, SemimajorAxis := 100\<rparr>] = Finite 8
   \<and> ScaleDistance \<lparr>ds_width = 80, ds_height = 23\<rparr> 100
     [zero_body\<lparr>EnglishName := ''a'', IsPlanet := True, SemimajorAxis := 1\<rparr>,
      zero_body\<lparr>EnglishName := ''b'', IsPlanet := True, SemimajorAxis := 100\<rparr>] = Finite 7.6"
proof -
  have m: "maxRadius \<lparr>ds_width = 80, ds_height = 23\<rparr> = 7.6"
    by (simp add: maxRadius_def signed_divide_int_def)
  have lt: "(1::real) < 100" by simp
  show ?thesis
    using ScaleDistance_endpoints[OF range_ab lt, of "\<lparr>ds_width = 80, ds_height = 23\<rparr>"]
    by (simp add: range_ab m)
qed

section \<open>Results about the orbital angle\<close>

lemma go_int_small: "0 \<le> x \<Longrightarrow> x < 1 \<Longrightarrow> go_int x = 0"
  by (simp add: go_int_def floor_eq_iff)

lemma go_int_small_neg: "x \<le> 0 \<Longrightarrow> -1 < x \<Longrightarrow> go_int x = 0"
  by (auto simp add: go_int_def ceiling_eq_iff floor_eq_iff)

lemma math_Mod_small: "0 \<le> x \<Longrightarrow> x < y \<Longrightarrow> math_Mod x y = x"
  by (simp add: math_Mod_def go_int_small)

lemma math_Mod_small_neg: "x \<le> 0 \<Longrightarrow> - y < x \<Longrightarrow> math_Mod x y = x"
proof -
  assume a: "x \<le> 0" "- y < x"
  then have y: "0 < y" by linarith
  have "x / y \<le> 0" using a y by (simp add: divide_nonpos_pos)
  moreover have "-1 < x / y" using a y by (simp add: pos_less_divide_eq)
  ultimately have "go_int (x / y) = 0" by (rule go_int_small_neg)
  then show ?thesis by (simp add: math_Mod_def)
qed

text \<open>
  Half a day before its epoch the generic calculator is at \<open>3 \<times> 0.01745329 - \<pi>/2\<close> for a
  body of period 2 days, and \<open>math.Mod\<close> leaves this negative angle as it is.
\<close>

lemma generic_before_epoch:
  "Generic_CalculateMeanAnomaly 1000000000000000
     (zero_body\<lparr>EnglishName := ''b'', SemimajorAxis := 1, SideralOrbit := 2\<rparr>)
     (1000000000000000 - 43200000000000) = 5235987 / 100000000 - pi / 2"
proof -
  have p: "2 \<le> pi" by (rule pi_ge_two)
  have i: "math_Mod (5235987 / 100000000) (2 * pi) = 5235987 / 100000000"
    using p by (intro math_Mod_small) auto
  have m: "math_Mod (5235987 / 100000000 - pi / 2) (2 * pi) = 5235987 / 100000000 - pi / 2"
    using p by (intro math_Mod_small_neg) auto
  show ?thesis
    by (simp add: Generic_CalculateMeanAnomaly_def initialAngle_def zero_body_def time_Sub_def
        Hours_def Let_def i m)
qed

text \<open>Mars, a hundred days before J2000.0.\<close>

lemma solar_before_j2000:
  "Solar_CalculateMeanAnomaly 0
     (zero_body\<lparr>EnglishName := ''Mars'', IsPlanet := True, SemimajorAxis := 227939200,
        SideralOrbit := 686.98\<rparr>)
     (j2000 - 100 * 86400000000000) < 0"
proof -
  let ?x = "19.3730 * pi / 180 + 2 * pi / 686.98 * (-100)"
  have p: "0 < pi" by simp
  have neg: "?x < 0" using p by simp
  have m: "math_Mod ?x (2 * pi) = ?x"
    using p by (intro math_Mod_small_neg) auto
  show ?thesis
    using neg m
    by (simp add: Solar_CalculateMeanAnomaly_def j2000MeanAnomalies_def zero_body_def
        time_Sub_def Hours_def Let_def j2000_def)
qed

text \<open>
  C2: the orbital angle is claimed to lie in \<open>[0, 2\<pi>)\<close> for every body and every instant,
  also before the epoch. The calculators reduce the angle with \<open>math.Mod\<close>, which keeps the
  sign of its first argument: for an instant before the epoch the angle is negative, for the
  generic calculator (epoch: process start) and for the Solar System calculator (epoch:
  J2000.0) alike.
\<close>

theorem CalculateMeanAnomaly_negative_before_epoch:
  "CalculateMeanAnomaly (GenericCalculator 1000000000000000)
     (zero_body\<lparr>EnglishName := ''b'', SemimajorAxis := 1, SideralOrbit := 2\<rparr>)
     (1000000000000000 - 43200000000000) < 0
   \<and> CalculateMeanAnomaly (SolarSystemCalculator 0)
     (zero_body\<lparr>EnglishName := ''Mars'', IsPlanet := True, SemimajorAxis := 227939200,
        SideralOrbit := 686.98\<rparr>)
     (j2000 - 100 * 86400000000000) < 0"
proof -
  have "5235987 / 100000000 - pi / 2 < 0" using pi_ge_two by simp
  then show ?thesis
    using generic_before_epoch solar_before_j2000 by simp
qed

lemma initialAngle_small:
  "initialAngle (zero_body\<lparr>EnglishName := ''b'', SemimajorAxis := 1\<rparr>) = 1745329 / 100000000"
proof -
  have "math_Mod (1745329 / 100000000) (2 * pi) = 1745329 / 100000000"
    using pi_ge_two by (intro math_Mod_small) auto
  then show ?thesis by (simp add: initialAngle_def zero_body_def)
qed

text \<open>
  C7, as stated: for a period that is not positive the angle calculation returns the fixed
  initial angle of the selected strategy. The renderer's \<open>getOrbitalAngle\<close> does not: for a
  body of period 0 whose seed-derived initial angle is 0.01745329 (the angle the generic
  calculator returns) it returns 0.
\<close>

theorem getOrbitalAngle_not_initial_angle:
  "SideralOrbit (zero_body\<lparr>EnglishName := ''b'', SemimajorAxis := 1\<rparr>) \<le> 0
   \<and> CalculateMeanAnomaly
       (CreateCalculator (zero_body\<lparr>EnglishName := ''b'', SemimajorAxis := 1\<rparr>) 0)
       (zero_body\<lparr>EnglishName := ''b'', SemimajorAxis := 1\<rparr>) 86400000000000
       = 1745329 / 100000000
   \<and> getOrbitalAngle
       \<lparr>aspectRatio = 2, startTime = 0, epochTime = 0, cor_width = 80, cor_height = 24\<rparr>
       86400000000000 (zero_body\<lparr>EnglishName := ''b'', SemimajorAxis := 1\<rparr>) = 0"
proof -
  have c: "CreateCalculator (zero_body\<lparr>EnglishName := ''b'', SemimajorAxis := 1\<rparr>) 0
             = GenericCalculator 0"
    by (simp add: CreateCalculator_def isSolarSystemBody_def zero_body_def)
  have s: "SideralOrbit (zero_body\<lparr>EnglishName := ''b'', SemimajorAxis := 1\<rparr>) = 0"
    by (simp add: zero_body_def)
  show ?thesis
    using initialAngle_small
    by (simp add: c s Generic_CalculateMeanAnomaly_def getOrbitalAngle_def Let_def)
qed

text \<open>
  C7, amended: for a period that is not positive, each of the three calculators returns its
  fixed initial angle (the tabulated J2000.0 anomaly, the recorded epoch anomaly reduced by
  \<open>math.Mod\<close>, the seed-derived angle) and the renderer's \<open>getOrbitalAngle\<close> returns 0; none
  of them depends on the instant.
\<close>

theorem zero_period_angle_constant:
  assumes "SideralOrbit body \<le> 0"
  shows "Generic_CalculateMeanAnomaly epoch body t = initialAngle body
    \<and> Solar_CalculateMeanAnomaly epoch body t =
        (case j2000MeanAnomalies (EnglishName body) of
           Some a \<Rightarrow> a | None \<Rightarrow> initialAngle body)
    \<and> Exact_CalculateMeanAnomaly body t =
        (case OrbitalElements body of
           Some elements \<Rightarrow> math_Mod (MeanAnomaly elements * pi / 180) (2 * pi) | None \<Rightarrow> 0)
    \<and> getOrbitalAngle cor t body = 0
    \<and> CalculateMeanAnomaly c body t = CalculateMeanAnomaly c body t'
    \<and> getOrbitalAngle cor t body = getOrbitalAngle cor t' body"
proof -
  have g: "\<And>e u. Generic_CalculateMeanAnomaly e body u = initialAngle body"
    using assms by (simp add: Generic_CalculateMeanAnomaly_def Let_def)
  have s: "\<And>e u. Solar_CalculateMeanAnomaly e body u =
        (case j2000MeanAnomalies (EnglishName body) of
           Some a \<Rightarrow> a | None \<Rightarrow> initialAngle body)"
    using assms by (simp add: Solar_CalculateMeanAnomaly_def Let_def g split: option.splits)
  have x: "\<And>u. Exact_CalculateMeanAnomaly body u =
        (case OrbitalElements body of
           Some elements \<Rightarrow> math_Mod (MeanAnomaly elements * pi / 180) (2 * pi) | None \<Rightarrow> 0)"
    using assms by (simp add: Exact_CalculateMeanAnomaly_def Let_def split: option.splits)
  have o: "\<And>u. getOrbitalAngle cor u body = 0"
    using assms by (simp add: getOrbitalAngle_def)
  have c: "CalculateMeanAnomaly c body t = CalculateMeanAnomaly c body t'"
    by (cases c) (simp_all add: g s x)
  show ?thesis using g s x o c by simp
qed

theorem zero_period_angle_constant_witness:
  "SideralOrbit (zero_body\<lparr>EnglishName := ''Earth''\<rparr>) \<le> 0
   \<and> Solar_CalculateMeanAnomaly 0 (zero_body\<lparr>EnglishName := ''Earth''\<rparr>) 5
       = 357.5291 * pi / 180
   \<and> getOrbitalAngle
       \<lparr>aspectRatio = 2, startTime = 0, epochTime = 0, cor_width = 80, cor_height = 24\<rparr>
       5 (zero_body\<lparr>EnglishName := ''Earth''\<rparr>) = 0
   \<and> CalculateMeanAnomaly (SolarSystemCalculator 0) (zero_body\<lparr>EnglishName := ''Earth''\<rparr>) 5
       = CalculateMeanAnomaly (SolarSystemCalculator 0) (zero_body\<lparr>EnglishName := ''Earth''\<rparr>) 99"
proof -
  have h: "SideralOrbit (zero_body\<lparr>EnglishName := ''Earth''\<rparr>) \<le> 0"
    by (simp add: zero_body_def)
  show ?thesis
    using h zero_period_angle_constant [OF h, where epoch = 0 and t = 5 and t' = 99
        and c = "SolarSystemCalculator 0"
        and cor = "\<lparr>aspectRatio = 2, startTime = 0, epochTime = 0, cor_width = 80,
                     cor_height = 24\<rparr>"]
    by (simp add: zero_body_def j2000MeanAnomalies_def)
qed

section \<open>Results about the placement of two stars\<close>

text \<open>The mass that the code computes is the mass of the specification; it is positive.\<close>

lemma getStarMass_spec: "getStarMass star = spec_star_mass star"
  by (simp add: getStarMass_def spec_star_mass_def solar_mass_def solar_radius_def Let_def)

lemma getStarMass_pos: "0 < getStarMass star"
  by (simp add: getStarMass_def Let_def)

lemma calculateBinarySeparation_pos: "0 < calculateBinarySeparation cor"
  by (simp add: calculateBinarySeparation_def Let_def max_def)

lemma go_int_abs_mono:
  assumes "0 \<le> a" "a \<le> b"
  shows "\<bar>go_int (a * c)\<bar> \<le> \<bar>go_int (b * c)\<bar>"
proof (cases "0 \<le> c")
  case True
  then have "0 \<le> a * c" "a * c \<le> b * c" using assms by (simp_all add: mult_right_mono)
  then show ?thesis
    using floor_mono[of "a * c" "b * c"] by (simp add: go_int_def)
next
  case False
  then have c: "c < 0" by simp
  have 1: "a * c \<le> 0" "b * c \<le> a * c" using assms c
    by (simp_all add: mult_nonneg_nonpos mult_right_mono_neg)
  then have 2: "b * c \<le> 0" by linarith
  have 3: "\<lceil>b * c\<rceil> \<le> \<lceil>a * c\<rceil>" using 1 by (simp add: ceiling_mono)
  have 4: "\<lceil>a * c\<rceil> \<le> 0" using 1 by (simp add: ceiling_le_zero)
  have 5: "go_int (a * c) = (if a * c = 0 then 0 else \<lceil>a * c\<rceil>)" using 1 by (auto simp: go_int_def)
  have 6: "go_int (b * c) = (if b * c = 0 then 0 else \<lceil>b * c\<rceil>)" using 2 by (auto simp: go_int_def)
  show ?thesis using 3 4 5 6 1 2 by (auto split: if_splits)
qed

lemma binaryRadii_eq:
  "binaryRadii cor star1 star2 =
     (calculateBinarySeparation cor * (getStarMass star2 / (getStarMass star1 + getStarMass star2)),
      calculateBinarySeparation cor * (getStarMass star1 / (getStarMass star1 + getStarMass star2)))"
  by (simp add: binaryRadii_def Let_def)

text \<open>
  C3: let \<open>m1\<close> and \<open>m2\<close> be the masses of two stars (the recorded mass, else
  \<open>(R/R_sun)^2.5\<close> solar masses, else one solar mass), \<open>separation\<close> the separation of the
  viewport and \<open>angle\<close> the phase at the instant \<open>now\<close>. With
  \<open>r1 = separation \<times> m2/(m1+m2)\<close> and \<open>r2 = separation \<times> m1/(m1+m2)\<close>, the renderer
  places the first star at the center plus the integer displacement
  \<open>(int(r1 cos angle), int(r1 sin angle \<times> 0.5))\<close> and the second at the center minus
  \<open>(int(r2 cos angle), int(r2 sin angle \<times> 0.5))\<close>. Hence for equal masses the two
  displacements are equal and opposite at every instant, and for \<open>m1 > m2\<close> the heavier star
  is the nearer one: \<open>r1 < r2\<close>, and its displacement is not larger in either coordinate.
\<close>

theorem binary_star_placement:
  assumes m1: "m1 = spec_star_mass star1" and m2: "m2 = spec_star_mass star2"
    and sep: "separation = calculateBinarySeparation cor"
    and r1: "r1 = separation * (m2 / (m1 + m2))" and r2: "r2 = separation * (m1 / (m1 + m2))"
    and angle: "angle = 2 * pi * Seconds (time_Sub now (startTime cor))
                          / calculateBinaryOrbitalPeriod [star1, star2] separation"
  shows "calculateStarPositions cor now [star1, star2] centerX centerY =
           [(centerX + go_int (r1 * cos angle), centerY + go_int (r1 * sin angle * 0.5)),
            (centerX - go_int (r2 * cos angle), centerY - go_int (r2 * sin angle * 0.5))]
       \<and> 0 < r1 \<and> 0 < r2 \<and> r1 + r2 = separation \<and> r1 * m1 = r2 * m2
       \<and> (m1 = m2 \<longrightarrow> r1 = r2
             \<and> go_int (r1 * cos angle) = go_int (r2 * cos angle)
             \<and> go_int (r1 * sin angle * 0.5) = go_int (r2 * sin angle * 0.5))
       \<and> (m1 > m2 \<longrightarrow> r1 < r2
             \<and> \<bar>go_int (r1 * cos angle)\<bar> \<le> \<bar>go_int (r2 * cos angle)\<bar>
             \<and> \<bar>go_int (r1 * sin angle * 0.5)\<bar> \<le> \<bar>go_int (r2 * sin angle * 0.5)\<bar>)"
proof -
  have g1: "getStarMass star1 = m1" and g2: "getStarMass star2 = m2"
    using m1 m2 by (simp_all add: getStarMass_spec)
  have p1: "0 < m1" and p2: "0 < m2"
    using getStarMass_pos[of star1] getStarMass_pos[of star2] g1 g2 by simp_all
  have ps: "0 < separation" using sep calculateBinarySeparation_pos by simp
  have rr: "binaryRadii cor star1 star2 = (r1, r2)"
    using g1 g2 sep r1 r2 by (simp add: binaryRadii_eq)
  have pos: "calculateStarPositions cor now [star1, star2] centerX centerY =
           [(centerX + go_int (r1 * cos angle), centerY + go_int (r1 * sin angle * 0.5)),
            (centerX - go_int (r2 * cos angle), centerY - go_int (r2 * sin angle * 0.5))]"
    unfolding calculateStarPositions_def calculateBinaryStarPositions_def
    using rr angle sep by (simp add: Let_def)
  have q1: "0 < r1" and q2: "0 < r2" using r1 r2 p1 p2 ps by simp_all
  have sum: "r1 + r2 = separation"
  proof -
    have n: "m1 + m2 \<noteq> 0" using p1 p2 by simp
    have "r1 + r2 = separation * ((m2 + m1) / (m1 + m2))"
      unfolding r1 r2 by (simp add: add_divide_distrib distrib_left)
    also have "(m2 + m1) / (m1 + m2) = 1" using n by (simp add: add.commute)
    finally show ?thesis by simp
  qed
  have bal: "r1 * m1 = r2 * m2" unfolding r1 r2 by simp
  have eq: "m1 = m2 \<Longrightarrow> r1 = r2" using r1 r2 by simp
  have lt: "m2 < m1 \<Longrightarrow> r1 < r2"
    unfolding r1 r2 using p1 p2 ps by (simp add: divide_strict_right_mono)
  have ab: "m2 < m1 \<Longrightarrow> \<bar>go_int (r1 * c)\<bar> \<le> \<bar>go_int (r2 * c)\<bar>" for c
    using go_int_abs_mono[of r1 r2 c] lt q1 by simp
  have ay: "m2 < m1 \<Longrightarrow> \<bar>go_int (r1 * sin angle * 0.5)\<bar> \<le> \<bar>go_int (r2 * sin angle * 0.5)\<bar>"
    using ab[of "sin angle * 0.5"] by (simp add: mult.assoc)
  have E: "m1 = m2 \<longrightarrow> r1 = r2
             \<and> go_int (r1 * cos angle) = go_int (r2 * cos angle)
             \<and> go_int (r1 * sin angle * 0.5) = go_int (r2 * sin angle * 0.5)"
    using eq by simp
  have G: "m1 > m2 \<longrightarrow> r1 < r2
             \<and> \<bar>go_int (r1 * cos angle)\<bar> \<le> \<bar>go_int (r2 * cos angle)\<bar>
             \<and> \<bar>go_int (r1 * sin angle * 0.5)\<bar> \<le> \<bar>go_int (r2 * sin angle * 0.5)\<bar>"
    using lt ab[of "cos angle"] ay by blast
  show ?thesis using pos q1 q2 sum bal E G by blast
qed


theorem binary_star_placement_witness:
  "2 * 10 ^ 30 = spec_star_mass (zero_body\<lparr>EnglishName := ''A'', BodyType := ''Star'',
            BodyMass := \<lparr>MassValue = 2, MassExponent = 30\<rparr>\<rparr>)
   \<and> 10 ^ 30 = spec_star_mass (zero_body\<lparr>EnglishName := ''B'', BodyType := ''Star'',
            BodyMass := \<lparr>MassValue = 1, MassExponent = 30\<rparr>\<rparr>)
   \<and> 6 = calculateBinarySeparation
       \<lparr>aspectRatio = 2, startTime = 0, epochTime = 0, cor_width = 80, cor_height = 24\<rparr>
   \<and> (2::real) = 6 * (10 ^ 30 / (2 * 10 ^ 30 + 10 ^ 30))
   \<and> (4::real) = 6 * (2 * 10 ^ 30 / (2 * 10 ^ 30 + 10 ^ 30))
   \<and> (2 * 10 ^ 30 :: real) > 10 ^ 30
   \<and> calculateStarPositions
       \<lparr>aspectRatio = 2, startTime = 0, epochTime = 0, cor_width = 80, cor_height = 24\<rparr> 0
       [zero_body\<lparr>EnglishName := ''A'', BodyType := ''Star'',
            BodyMass := \<lparr>MassValue = 2, MassExponent = 30\<rparr>\<rparr>,
        zero_body\<lparr>EnglishName := ''B'', BodyType := ''Star'',
            BodyMass := \<lparr>MassValue = 1, MassExponent = 30\<rparr>\<rparr>] 40 12
       = [(42, 12), (36, 12)]"
proof -
  let ?A = "zero_body\<lparr>EnglishName := ''A'', BodyType := ''Star'',
            BodyMass := \<lparr>MassValue = 2, MassExponent = 30\<rparr>\<rparr>"
  let ?B = "zero_body\<lparr>EnglishName := ''B'', BodyType := ''Star'',
            BodyMass := \<lparr>MassValue = 1, MassExponent = 30\<rparr>\<rparr>"
  let ?cor = "\<lparr>aspectRatio = 2, startTime = 0, epochTime = 0, cor_width = 80, cor_height = 24\<rparr>"
  have a: "2 * 10 ^ 30 = spec_star_mass ?A" by (simp add: spec_star_mass_def zero_body_def)
  have b: "10 ^ 30 = spec_star_mass ?B" by (simp add: spec_star_mass_def zero_body_def)
  have c: "6 = calculateBinarySeparation ?cor"
    by (simp add: calculateBinarySeparation_def getTerminalSizeFactor_def Let_def)
  have d: "(2::real) = 6 * (10 ^ 30 / (2 * 10 ^ 30 + 10 ^ 30))" by simp
  have e: "(4::real) = 6 * (2 * 10 ^ 30 / (2 * 10 ^ 30 + 10 ^ 30))" by simp
  have f: "0 = 2 * pi * Seconds (time_Sub 0 (startTime ?cor))
                 / calculateBinaryOrbitalPeriod [?A, ?B] 6"
    by (simp add: Seconds_def time_Sub_def)
  have g: "go_int 2 = 2" "go_int 4 = 4" "go_int 0 = 0" by (simp_all add: go_int_def)
  have "calculateStarPositions ?cor 0 [?A, ?B] 40 12 = [(42, 12), (36, 12)]"
    using binary_star_placement [OF a b c d e f, of 40 12] by (simp add: g)
  then show ?thesis using a b c d e by simp
qed

section \<open>Results about symbols\<close>

lemma name_hash_foldl: "h < 20 \<Longrightarrow> foldl (\<lambda>hash char. (hash + char) mod 20) h rs < (20::nat)"
  by (induction rs arbitrary: h) simp_all

lemma length_genericSymbols: "length genericSymbols = 20"
  by (simp add: genericSymbols_def)

lemma name_hash_bound: "name_hash name < length genericSymbols"
  unfolding name_hash_def length_genericSymbols by (rule name_hash_foldl) simp

lemma classifyByTemperature_class:
  "classifyByTemperature temp \<in> {''O5V'', ''B5V'', ''A5V'', ''F5V'', ''G5V'', ''K5V'', ''M5V''}"
  by (simp add: classifyByTemperature_def)

lemma getStellarClass_inferred:
  "StellarClass star = [] \<Longrightarrow>
     getStellarClass star \<in> {''O5V'', ''B5V'', ''A5V'', ''F5V'', ''G5V'', ''K5V'', ''M5V''}"
  using classifyByTemperature_class
  by (auto simp add: getStellarClass_def Let_def split: option.splits)

lemma getStellarClass_recorded:
  "StellarClass star \<noteq> [] \<Longrightarrow> getStellarClass star = StellarClass star"
  by (simp add: getStellarClass_def)

lemma getStellarClass_nonempty: "getStellarClass star \<noteq> []"
proof (cases "StellarClass star = []")
  case True
  then show ?thesis using getStellarClass_inferred[OF True] by auto
next
  case False
  then show ?thesis by (simp add: getStellarClass_recorded)
qed

lemma getStarSymbol_eq:
  "getStarSymbol star =
     Inr (if hd (getStellarClass star) \<notin> set ''OBAFGKM'' \<and> EnglishName star = ''Sun''
          then 0x2609 else spec_class_glyph (hd (getStellarClass star)))"
  using getStellarClass_nonempty[of star]
  by (cases "getStellarClass star") (auto simp add: getStarSymbol_def spec_class_glyph_def)

text \<open>
  C9, as stated, gives an unclassified star the generic star glyph. \<open>getStellarClass\<close>
  never leaves a star unclassified: with no recorded class it infers one from the
  temperature, else from the mass. A star with no class, no temperature, no mass and no
  radius counts as one solar mass, class G, and gets the Sun glyph U+2609, not the generic
  glyph U+2B50.
\<close>

theorem unclassified_star_not_generic:
  "StellarClass (zero_body\<lparr>EnglishName := ''Proxima'', BodyType := ''Star''\<rparr>) = []
   \<and> getStarSymbol (zero_body\<lparr>EnglishName := ''Proxima'', BodyType := ''Star''\<rparr>) = Inr 0x2609
   \<and> getStarSymbol (zero_body\<lparr>EnglishName := ''Proxima'', BodyType := ''Star''\<rparr>) \<noteq> Inr 0x2B50"
  by (simp add: getStarSymbol_def getStellarClass_def getTemperature_def getStarMass_def
      zero_body_def Let_def)

text \<open>
  C9, amended: a star with a recorded class gets the glyph of the table for the first
  character of that class (O, B; A, F; G; K; M; the generic glyph for any other character,
  but the Sun glyph when the star is named Sun). A star with no recorded class gets the
  glyph of the table for the class inferred from temperature or mass, which is one of the
  seven classes, so it never gets the generic glyph. A name outside the table of the Sol
  system gets the rune of the palette at the index \<open>name_hash\<close>, which is within the palette.
\<close>

theorem symbol_assignment:
  "(StellarClass star \<noteq> [] \<longrightarrow>
      getStarSymbol star =
        Inr (if hd (StellarClass star) \<notin> set ''OBAFGKM'' \<and> EnglishName star = ''Sun''
             then 0x2609 else spec_class_glyph (hd (StellarClass star))))
   \<and> (StellarClass star = [] \<longrightarrow>
        hd (getStellarClass star) \<in> set ''OBAFGKM''
        \<and> getStarSymbol star = Inr (spec_class_glyph (hd (getStellarClass star)))
        \<and> getStarSymbol star \<noteq> Inr 0x2B50)
   \<and> (knownSymbols name = None \<longrightarrow>
        GetPlanetSymbol name = genericSymbols ! name_hash name
        \<and> name_hash name < length genericSymbols
        \<and> GetPlanetSymbol name \<in> set genericSymbols)"
proof (intro conjI impI)
  assume r: "StellarClass star \<noteq> []"
  show "getStarSymbol star =
        Inr (if hd (StellarClass star) \<notin> set ''OBAFGKM'' \<and> EnglishName star = ''Sun''
             then 0x2609 else spec_class_glyph (hd (StellarClass star)))"
    using getStarSymbol_eq[of star] by (simp add: getStellarClass_recorded[OF r])
next
  assume u: "StellarClass star = []"
  show h: "hd (getStellarClass star) \<in> set ''OBAFGKM''"
    using getStellarClass_inferred[OF u] by auto
  show g: "getStarSymbol star = Inr (spec_class_glyph (hd (getStellarClass star)))"
    using getStarSymbol_eq[of star] h by auto
  show "getStarSymbol star \<noteq> Inr 0x2B50"
    using g h by (auto simp add: spec_class_glyph_def)
next
  assume k: "knownSymbols name = None"
  show e: "GetPlanetSymbol name = genericSymbols ! name_hash name"
    using k by (simp add: GetPlanetSymbol_def generateGenericSymbol_def)
  show "name_hash name < length genericSymbols" by (rule name_hash_bound)
  show "GetPlanetSymbol name \<in> set genericSymbols"
    using e name_hash_bound by simp
qed

lemma hash_kepler: "name_hash ''Kepler-452b'' = 9"
  by (simp add: name_hash_def runes_of_def genericSymbols_def)


lemma knownSymbols_kepler: "knownSymbols ''Kepler-452b'' = None"
  by (simp add: knownSymbols_def)

theorem symbol_assignment_witness:
  "StellarClass (zero_body\<lparr>EnglishName := ''Sirius'', StellarClass := ''A1V''\<rparr>) \<noteq> []
   \<and> getStarSymbol (zero_body\<lparr>EnglishName := ''Sirius'', StellarClass := ''A1V''\<rparr>) = Inr 0x2727
   \<and> StellarClass (zero_body\<lparr>EnglishName := ''Proxima'', Temperature := 3042\<rparr>) = []
   \<and> getStarSymbol (zero_body\<lparr>EnglishName := ''Proxima'', Temperature := 3042\<rparr>) = Inr 0x272A
   \<and> knownSymbols ''Kepler-452b'' = None
   \<and> GetPlanetSymbol ''Kepler-452b'' = 0x1F30D"
proof -
  let ?s = "zero_body\<lparr>EnglishName := ''Sirius'', StellarClass := ''A1V''\<rparr>"
  let ?p = "zero_body\<lparr>EnglishName := ''Proxima'', Temperature := 3042\<rparr>"
  have a: "StellarClass ?s \<noteq> []" by (simp add: zero_body_def)
  have b: "StellarClass ?p = []" by (simp add: zero_body_def)
  have c: "getStellarClass ?p = ''M5V''"
    by (simp add: getStellarClass_def getTemperature_def classifyByTemperature_def zero_body_def)
  have 1: "getStarSymbol ?s = Inr 0x2727"
    using symbol_assignment[of ?s] a by (simp add: zero_body_def spec_class_glyph_def)
  have 2: "getStarSymbol ?p = Inr 0x272A"
    using symbol_assignment[of ?p] b by (simp add: c spec_class_glyph_def)
  have 3: "GetPlanetSymbol ''Kepler-452b'' = 0x1F30D"
    using symbol_assignment[of _ "''Kepler-452b''"] knownSymbols_kepler
    by (simp add: hash_kepler genericSymbols_def)
  show ?thesis using a b 1 2 3 knownSymbols_kepler by simp
qed

text \<open>
  C10, as stated, has the first character of the class always among O, B, A, F, G, K, M.
  A recorded class is returned as it is: for the white dwarf class DA2 the first character
  is D.
\<close>

theorem recorded_class_outside_table:
  "getStellarClass (zero_body\<lparr>EnglishName := ''Sirius B'', StellarClass := ''DA2''\<rparr>) = ''DA2''
   \<and> hd ''DA2'' \<notin> set ''OBAFGKM''"
  by (simp add: getStellarClass_def zero_body_def)

text \<open>
  C10, amended: for every body the class that \<open>getStellarClass\<close> returns is not empty, so
  the read of its first character is in bounds and \<open>getStarSymbol\<close> returns a glyph, one of
  the six star glyphs; when no class is recorded, the first character of the inferred class
  is one of O, B, A, F, G, K, M.
\<close>

theorem getStarSymbol_total:
  "getStellarClass star \<noteq> []
   \<and> (StellarClass star = [] \<longrightarrow> hd (getStellarClass star) \<in> set ''OBAFGKM'')
   \<and> (\<exists>g. getStarSymbol star = Inr g \<and> g \<in> star_glyphs)"
proof (intro conjI impI)
  show "getStellarClass star \<noteq> []" by (rule getStellarClass_nonempty)
next
  assume "StellarClass star = []"
  then show "hd (getStellarClass star) \<in> set ''OBAFGKM''"
    using getStellarClass_inferred[of star] by auto
next
  show "\<exists>g. getStarSymbol star = Inr g \<and> g \<in> star_glyphs"
    by (simp add: getStarSymbol_eq star_glyphs_def spec_class_glyph_def)
qed

theorem getStarSymbol_total_witness:
  "StellarClass zero_body = [] \<and> getStellarClass zero_body = ''G5V''
   \<and> hd (getStellarClass zero_body) \<in> set ''OBAFGKM''
   \<and> (\<exists>g. getStarSymbol zero_body = Inr g \<and> g \<in> star_glyphs)"
proof -
  have a: "StellarClass zero_body = []" by (simp add: zero_body_def)
  have b: "getStellarClass zero_body = ''G5V''"
    by (simp add: getStellarClass_def getTemperature_def getStarMass_def zero_body_def Let_def)
  show ?thesis using a b getStarSymbol_total[of zero_body] by simp
qed

end
